theory Spec2Isabelle
  imports Complex_Main "HOL-Library.Word"
begin

section \<open>Numbers\<close>

text \<open>
  The numeric kernels of the network (convolutions, batch normalisation, softmax) are
  verified in exact arithmetic: a C++ \<open>float\<close> is read as a \<open>real\<close>, so rounding and
  overflow to infinity are outside the model. Two functions of the source look at the one
  float that is not a number: \<open>relative_difference\<close> tests \<open>std::isnan\<close>, and the
  comparisons of \<open>SearchResult::from_score\<close> are all false on it. For these a float is
  either \<open>NaN\<close> or a finite real.
\<close>

datatype float = NaN | Fin real

text \<open>The comparisons \<open>a > b\<close> and \<open>a < b\<close> of C++: false as soon as one side is NaN.\<close>

fun fgt :: "float \<Rightarrow> float \<Rightarrow> bool" where
  "fgt (Fin a) (Fin b) = (a > b)"
| "fgt _ _ = False"

fun flt :: "float \<Rightarrow> float \<Rightarrow> bool" where
  "flt (Fin a) (Fin b) = (a < b)"
| "flt _ _ = False"

section \<open>Single-precision floats\<close>

text \<open>
  A \<open>float\<close> of the source is an IEEE 754 binary32 number: not a number (\<open>NaN32\<close>), an infinity, or a
  finite value \<open>m \<cdot> 2\<^sup>e\<close>, written \<open>Finite m e\<close>. Every operation rounds its exact result to the
  nearest float, ties to the even mantissa, and the result is packed with a mantissa of 24 bits
  (fewer at the exponent -149 of the subnormal numbers) or as an infinity beyond the largest
  finite float. The sign of a zero is not represented: none of the functions modelled divides
  by a computed zero or prints one.
\<close>

datatype binary32 = NaN32 | PInf | MInf | Finite int int

definition valof :: "binary32 \<Rightarrow> real" where
  "valof x =
     (case x of
        Finite m e \<Rightarrow> if 0 \<le> e then of_int m * 2 ^ nat e else of_int m / 2 ^ nat (- e)
      | _ \<Rightarrow> 0)"

text \<open>The number of binary digits of a natural number.\<close>

fun bit_length :: "nat \<Rightarrow> nat" where
  "bit_length n = (if n = 0 then 0 else Suc (bit_length (n div 2)))"

text \<open>
  \<open>pack\<close> stores a rounded magnitude \<open>n \<cdot> 2\<^sup>e\<close> with its sign: a mantissa that the rounding
  carried to \<open>2\<^sup>2\<^sup>4\<close> moves to the next exponent, and an exponent above 104 overflows.
  \<open>round_to_binary32\<close> rounds the exact magnitude \<open>m \<cdot> 2\<^sup>e\<close>: it drops the \<open>shift\<close> low bits
  that do not fit the mantissa, to the nearest, ties to even.
\<close>

definition pack_exponent :: "bool \<Rightarrow> int \<Rightarrow> int \<Rightarrow> binary32" where
  "pack_exponent negative n e =
     (if 104 < e then (if negative then MInf else PInf)
      else Finite (if negative then - n else n) e)"

definition pack :: "bool \<Rightarrow> int \<Rightarrow> int \<Rightarrow> binary32" where
  "pack negative n e =
     (if n = 0 then Finite 0 (- 149)
      else if n = 2 ^ 24 then pack_exponent negative (2 ^ 23) (e + 1)
      else pack_exponent negative n e)"

definition nearest_even :: "int \<Rightarrow> int \<Rightarrow> int \<Rightarrow> int" where
  "nearest_even q r half =
     (if r < half then q else if half < r then q + 1 else if even q then q else q + 1)"

definition drop_bits :: "bool \<Rightarrow> int \<Rightarrow> int \<Rightarrow> int \<Rightarrow> binary32" where
  "drop_bits negative m e shift =
     (if shift \<le> 0 then pack negative (m * 2 ^ nat (- shift)) (e + shift)
      else pack negative
             (nearest_even (m div 2 ^ nat shift) (m mod 2 ^ nat shift) (2 ^ nat (shift - 1)))
             (e + shift))"

definition round_to_binary32 :: "bool \<Rightarrow> int \<Rightarrow> int \<Rightarrow> binary32" where
  "round_to_binary32 negative m e =
     drop_bits negative m e (max (int (bit_length (nat m)) - 24) (- 149 - e))"

text \<open>The float nearest to an integer, as a literal such as \<open>2.0f\<close> denotes it.\<close>

definition b32 :: "int \<Rightarrow> binary32" where
  "b32 n = round_to_binary32 (n < 0) \<bar>n\<bar> 0"

text \<open>The sum of two finite floats: the mantissas are aligned at the smaller exponent.\<close>

definition round_signed :: "int \<Rightarrow> int \<Rightarrow> binary32" where
  "round_signed s e = round_to_binary32 (s < 0) \<bar>s\<bar> e"

fun add32 :: "binary32 \<Rightarrow> binary32 \<Rightarrow> binary32" where
  "add32 (Finite m1 e1) (Finite m2 e2) =
     round_signed (m1 * 2 ^ nat (e1 - min e1 e2) + m2 * 2 ^ nat (e2 - min e1 e2)) (min e1 e2)"
| "add32 NaN32 y = NaN32"
| "add32 x NaN32 = NaN32"
| "add32 PInf MInf = NaN32"
| "add32 MInf PInf = NaN32"
| "add32 PInf y = PInf"
| "add32 MInf y = MInf"
| "add32 x PInf = PInf"
| "add32 x MInf = MInf"

fun neg32 :: "binary32 \<Rightarrow> binary32" where
  "neg32 (Finite m e) = Finite (- m) e"
| "neg32 PInf = MInf"
| "neg32 MInf = PInf"
| "neg32 NaN32 = NaN32"

fun fabs :: "binary32 \<Rightarrow> binary32" where
  "fabs (Finite m e) = Finite \<bar>m\<bar> e"
| "fabs PInf = PInf"
| "fabs MInf = PInf"
| "fabs NaN32 = NaN32"

text \<open>The sign of a float that is not NaN32: -1, 0 or 1.\<close>

fun sign32 :: "binary32 \<Rightarrow> int" where
  "sign32 (Finite m e) = sgn m"
| "sign32 PInf = 1"
| "sign32 MInf = - 1"
| "sign32 NaN32 = 0"

fun mul32 :: "binary32 \<Rightarrow> binary32 \<Rightarrow> binary32" where
  "mul32 (Finite m1 e1) (Finite m2 e2) = round_signed (m1 * m2) (e1 + e2)"
| "mul32 NaN32 y = NaN32"
| "mul32 x NaN32 = NaN32"
| "mul32 x y =
     (if sign32 x * sign32 y = 0 then NaN32 else if 0 < sign32 x * sign32 y then PInf else MInf)"

text \<open>
  The quotient of two finite floats is rounded from its first binary digits, \<open>s\<close> of them after
  the point, 32 more than the divisor has, and one digit more that says whether the division
  left a remainder.
\<close>

definition quotient_digits :: "bool \<Rightarrow> int \<Rightarrow> int \<Rightarrow> int \<Rightarrow> nat \<Rightarrow> binary32" where
  "quotient_digits negative m1 m2 e s =
     round_to_binary32 negative
       (2 * ((m1 * 2 ^ s) div m2) + (if (m1 * 2 ^ s) mod m2 = 0 then 0 else 1))
       (e - int s - 1)"

fun div32 :: "binary32 \<Rightarrow> binary32 \<Rightarrow> binary32" where
  "div32 (Finite m1 e1) (Finite m2 e2) =
     (if m2 = 0 then (if m1 = 0 then NaN32 else if 0 < m1 then PInf else MInf)
      else quotient_digits ((m1 < 0) \<noteq> (m2 < 0)) \<bar>m1\<bar> \<bar>m2\<bar> (e1 - e2)
             (bit_length (nat \<bar>m2\<bar>) + 32))"
| "div32 NaN32 y = NaN32"
| "div32 x NaN32 = NaN32"
| "div32 (Finite m e) y = Finite 0 (- 149)"
| "div32 x (Finite m e) =
     (if sign32 x * (if m < 0 then - 1 else 1) < 0 then MInf else PInf)"
| "div32 x y = NaN32"

text \<open>The comparisons \<open><\<close> and \<open>==\<close> of two floats: false as soon as one side is NaN32.\<close>

fun less32 :: "binary32 \<Rightarrow> binary32 \<Rightarrow> bool" where
  "less32 (Finite m1 e1) (Finite m2 e2) =
     (m1 * 2 ^ nat (e1 - min e1 e2) < m2 * 2 ^ nat (e2 - min e1 e2))"
| "less32 NaN32 y = False"
| "less32 x NaN32 = False"
| "less32 PInf y = False"
| "less32 x MInf = False"
| "less32 x y = True"

fun eq32 :: "binary32 \<Rightarrow> binary32 \<Rightarrow> bool" where
  "eq32 (Finite m1 e1) (Finite m2 e2) =
     (m1 * 2 ^ nat (e1 - min e1 e2) = m2 * 2 ^ nat (e2 - min e1 e2))"
| "eq32 PInf PInf = True"
| "eq32 MInf MInf = True"
| "eq32 x y = False"

text \<open>
  The arithmetic of the floats under the usual symbols, so that a function written once over
  a type with \<open>0\<close>, \<open>1\<close>, \<open>+\<close>, \<open>-\<close>, \<open>*\<close>, \<open>/\<close> and \<open><\<close> is the source's function at the type
  \<open>binary32\<close> and its reading in exact arithmetic at the type \<open>real\<close>.
\<close>

instantiation binary32 :: "{zero, one, plus, minus, uminus, times, inverse, abs, ord}"
begin

definition zero_binary32 :: binary32 where
  "zero_binary32 = Finite 0 (- 149)"

definition one_binary32 :: binary32 where
  "one_binary32 = Finite 8388608 (- 23)"

definition plus_binary32 :: "binary32 \<Rightarrow> binary32 \<Rightarrow> binary32" where
  "plus_binary32 x y = add32 x y"

definition uminus_binary32 :: "binary32 \<Rightarrow> binary32" where
  "uminus_binary32 x = neg32 x"

definition minus_binary32 :: "binary32 \<Rightarrow> binary32 \<Rightarrow> binary32" where
  "minus_binary32 x y = add32 x (neg32 y)"

definition times_binary32 :: "binary32 \<Rightarrow> binary32 \<Rightarrow> binary32" where
  "times_binary32 x y = mul32 x y"

definition divide_binary32 :: "binary32 \<Rightarrow> binary32 \<Rightarrow> binary32" where
  "divide_binary32 x y = div32 x y"

definition inverse_binary32 :: "binary32 \<Rightarrow> binary32" where
  "inverse_binary32 x = div32 (Finite 8388608 (- 23)) x"

definition abs_binary32 :: "binary32 \<Rightarrow> binary32" where
  "abs_binary32 x = fabs x"

definition less_binary32 :: "binary32 \<Rightarrow> binary32 \<Rightarrow> bool" where
  "less_binary32 x y = less32 x y"

definition less_eq_binary32 :: "binary32 \<Rightarrow> binary32 \<Rightarrow> bool" where
  "less_eq_binary32 x y = (less32 x y \<or> eq32 x y)"

instance ..

end

section \<open>UCTSearch.h: SearchResult\<close>

record SearchResult =
  m_valid :: bool
  m_eval :: float

text \<open>\<open>SearchResult() = default\<close> with the member initialisers \<open>m_valid{false}\<close>, \<open>m_eval{0.0f}\<close>.\<close>

definition SearchResult_default :: SearchResult where
  "SearchResult_default = \<lparr>m_valid = False, m_eval = Fin 0\<rparr>"

text \<open>The private \<open>explicit SearchResult(float eval)\<close>.\<close>

definition SearchResult_of :: "float \<Rightarrow> SearchResult" where
  "SearchResult_of eval = \<lparr>m_valid = True, m_eval = eval\<rparr>"

definition valid :: "SearchResult \<Rightarrow> bool" where
  "valid r = m_valid r"

definition eval :: "SearchResult \<Rightarrow> float" where
  "eval r = m_eval r"

definition from_eval :: "float \<Rightarrow> SearchResult" where
  "from_eval e = SearchResult_of e"

definition from_score :: "float \<Rightarrow> SearchResult" where
  "from_score board_score =
     (if fgt board_score (Fin 0) then SearchResult_of (Fin 1)
      else if flt board_score (Fin 0) then SearchResult_of (Fin 0)
      else SearchResult_of (Fin (1 / 2)))"

section \<open>network\_old.cpp: the weights and their loader\<close>

text \<open>
  Undefined behaviour of the C++ is a value of the model: a \<open>std::copy\<close> into a fixed-size
  array that is too short, and an integer division by zero.
\<close>

datatype fault = Buffer_Overflow | Division_By_Zero | Assertion_Failed

text \<open>
  The compile-time constants of \<open>NetworkOld\<close> are declared in network\_old.h, which is not
  among the sources. The functions that use them take them as a parameter.
\<close>

record constants =
  MAX_FORMAT_VERSION :: "64 word"
  V1_INPUT_CHANNELS :: nat
  V2_INPUT_CHANNELS :: nat
  V1_NUM_OUTPUT_POLICY :: nat
  V2_NUM_OUTPUT_POLICY :: nat
  NUM_POLICY_INPUT_PLANES :: nat
  NUM_VALUE_INPUT_PLANES :: nat
  NUM_VALUE_CHANNELS :: nat

text \<open>
  The static variables of network\_old.cpp. A \<open>std::array\<close> is a list of the array's fixed
  length; \<open>size_t\<close> is a 64-bit word.
\<close>

record globals =
  m_format_version :: "64 word"
  conv_weights :: "real list list"
  conv_biases :: "real list list"
  batchnorm_means :: "real list list"
  batchnorm_stddivs :: "real list list"
  conv_pol_w :: "real list"
  conv_pol_b :: "real list"
  bn_pol_w1 :: "real list"
  bn_pol_w2 :: "real list"
  v1_ip_pol_w :: "real list"
  v1_ip_pol_b :: "real list"
  v2_ip_pol_w :: "real list"
  v2_ip_pol_b :: "real list"
  conv_val_w :: "real list"
  conv_val_b :: "real list"
  bn_val_w1 :: "real list"
  bn_val_w2 :: "real list"
  ip1_val_w :: "real list"
  ip1_val_b :: "real list"
  ip2_val_w :: "real list"
  ip2_val_b :: "real list"

text \<open>
  The stream is the string of its characters. \<open>std::getline\<close> gives the characters up to the
  next newline and the stream after it, and fails (here \<open>None\<close>) when no character is left.
  \<open>getlines\<close> is the sequence of lines that a loop \<open>while (std::getline(wtfile, line))\<close> sees.
\<close>

fun getline :: "string \<Rightarrow> (string \<times> string) option" where
  "getline [] = None"
| "getline s = Some (takeWhile (\<lambda>c. c \<noteq> CHR 0x0A) s, drop 1 (dropWhile (\<lambda>c. c \<noteq> CHR 0x0A) s))"

function getlines :: "string \<Rightarrow> string list" where
  "getlines s = (case getline s of None \<Rightarrow> [] | Some (line, rest) \<Rightarrow> line # getlines rest)"
  by pat_completeness auto
termination
proof (relation "measure length")
  fix s :: string and x2 line rest
  assume "getline s = Some x2" "(line, rest) = x2"
  then show "(rest, s) \<in> measure length"
    by (cases s) (auto simp: less_Suc_eq_le intro: le_trans [OF diff_le_self length_dropWhile_le])
qed simp

text \<open>
  \<open>iss >> m_format_version\<close> for a \<open>size_t\<close>: leading white space is skipped; an optional sign
  and the decimal digits after it are converted as \<open>strtoull\<close> does (a minus sign negates
  modulo \<open>2\<^sup>6\<^sup>4\<close>). Without a digit the stream fails and stores 0; a value beyond the largest
  \<open>size_t\<close> fails and stores that largest value. The result is the fail bit and the value
  stored.
\<close>

definition isspace :: "char \<Rightarrow> bool" where
  "isspace c \<longleftrightarrow> c \<in> {CHR '' '', CHR 0x09, CHR 0x0A, CHR 0x0B, CHR 0x0C, CHR 0x0D}"

definition isdigit :: "char \<Rightarrow> bool" where
  "isdigit c \<longleftrightarrow> (48::nat) \<le> of_char c \<and> (of_char c :: nat) \<le> 57"

definition digit_value :: "char \<Rightarrow> nat" where
  "digit_value c = of_char c - 48"

definition decimal :: "string \<Rightarrow> nat" where
  "decimal ds = foldl (\<lambda>n c. 10 * n + digit_value c) 0 ds"

definition extract_size_t :: "string \<Rightarrow> bool \<times> 64 word" where
  "extract_size_t s =
     (let s1 = dropWhile isspace s;
          (negative, s2) =
             (case s1 of
                c # r \<Rightarrow> if c = CHR ''-'' then (True, r)
                         else if c = CHR ''+'' then (False, r) else (False, s1)
              | [] \<Rightarrow> (False, s1));
          ds = takeWhile isdigit s2
      in if ds = [] then (True, 0)
         else if decimal ds > 18446744073709551615 then (True, - 1)
         else (False, if negative then - word_of_nat (decimal ds) else word_of_nat (decimal ds)))"

text \<open>
  The number of white-space separated tokens of a line, which
  \<open>std::distance(std::istream_iterator<std::string>(iss), std::istream_iterator<std::string>())\<close>
  counts; the flag says whether the previous character was inside a token.
\<close>

fun count_tokens :: "bool \<Rightarrow> string \<Rightarrow> nat" where
  "count_tokens in_token [] = 0"
| "count_tokens in_token (c # cs) =
     (if isspace c then count_tokens False cs
      else (if in_token then 0 else 1) + count_tokens True cs)"

text \<open>
  \<open>std::copy(begin(weights), end(weights), begin(array))\<close> into a fixed-size array.
\<close>

definition std_copy :: "real list \<Rightarrow> real list \<Rightarrow> fault + real list" where
  "std_copy src dst =
     (if length src \<le> length dst then Inr (src @ drop (length src) dst) else Inl Buffer_Overflow)"

text \<open>
  Modelled from the spec: the default argument \<open>epsilon\<close> of \<open>process_bn_var\<close> is declared in
  network\_old.h, which is not among the sources. The spec gives \<open>\<epsilon> = 10\<^sup>-\<^sup>5\<close>.
\<close>

definition bn_epsilon :: real where
  "bn_epsilon = 1 / 100000"

definition process_bn_var :: "real \<Rightarrow> real list \<Rightarrow> real list" where
  "process_bn_var epsilon weights = map (\<lambda>w. 1 / sqrt (w + epsilon)) weights"

text \<open>
  The body of the second loop of \<open>load_network\<close> after a line has been parsed: the chain of
  \<open>if\<close>s that stores the weights of line \<open>linecount\<close>.
\<close>

definition store_line :: "64 word \<Rightarrow> 64 word \<Rightarrow> real list \<Rightarrow> globals \<Rightarrow> fault + globals" where
  "store_line plain_conv_wts linecount weights g =
     (if linecount < plain_conv_wts then
        (if linecount mod 4 = 0 then Inr (g\<lparr>conv_weights := conv_weights g @ [weights]\<rparr>)
         else if linecount mod 4 = 1 then Inr (g\<lparr>conv_biases := conv_biases g @ [weights]\<rparr>)
         else if linecount mod 4 = 2 then Inr (g\<lparr>batchnorm_means := batchnorm_means g @ [weights]\<rparr>)
         else if linecount mod 4 = 3 then
           Inr (g\<lparr>batchnorm_stddivs := batchnorm_stddivs g @ [process_bn_var bn_epsilon weights]\<rparr>)
         else Inr g)
      else if linecount = plain_conv_wts then Inr (g\<lparr>conv_pol_w := weights\<rparr>)
      else if linecount = plain_conv_wts + 1 then Inr (g\<lparr>conv_pol_b := weights\<rparr>)
      else if linecount = plain_conv_wts + 2 then
        map_sum id (\<lambda>a. g\<lparr>bn_pol_w1 := a\<rparr>) (std_copy weights (bn_pol_w1 g))
      else if linecount = plain_conv_wts + 3 then
        map_sum id (\<lambda>a. g\<lparr>bn_pol_w2 := a\<rparr>) (std_copy (process_bn_var bn_epsilon weights) (bn_pol_w2 g))
      else if linecount = plain_conv_wts + 4 then
        (if m_format_version g = 1
         then map_sum id (\<lambda>a. g\<lparr>v1_ip_pol_w := a\<rparr>) (std_copy weights (v1_ip_pol_w g))
         else map_sum id (\<lambda>a. g\<lparr>v2_ip_pol_w := a\<rparr>) (std_copy weights (v2_ip_pol_w g)))
      else if linecount = plain_conv_wts + 5 then
        (if m_format_version g = 1
         then map_sum id (\<lambda>a. g\<lparr>v1_ip_pol_b := a\<rparr>) (std_copy weights (v1_ip_pol_b g))
         else map_sum id (\<lambda>a. g\<lparr>v2_ip_pol_b := a\<rparr>) (std_copy weights (v2_ip_pol_b g)))
      else if linecount = plain_conv_wts + 6 then Inr (g\<lparr>conv_val_w := weights\<rparr>)
      else if linecount = plain_conv_wts + 7 then Inr (g\<lparr>conv_val_b := weights\<rparr>)
      else if linecount = plain_conv_wts + 8 then
        map_sum id (\<lambda>a. g\<lparr>bn_val_w1 := a\<rparr>) (std_copy weights (bn_val_w1 g))
      else if linecount = plain_conv_wts + 9 then
        map_sum id (\<lambda>a. g\<lparr>bn_val_w2 := a\<rparr>) (std_copy (process_bn_var bn_epsilon weights) (bn_val_w2 g))
      else if linecount = plain_conv_wts + 10 then
        map_sum id (\<lambda>a. g\<lparr>ip1_val_w := a\<rparr>) (std_copy weights (ip1_val_w g))
      else if linecount = plain_conv_wts + 11 then
        map_sum id (\<lambda>a. g\<lparr>ip1_val_b := a\<rparr>) (std_copy weights (ip1_val_b g))
      else if linecount = plain_conv_wts + 12 then
        map_sum id (\<lambda>a. g\<lparr>ip2_val_w := a\<rparr>) (std_copy weights (ip2_val_w g))
      else if linecount = plain_conv_wts + 13 then
        map_sum id (\<lambda>a. g\<lparr>ip2_val_b := a\<rparr>) (std_copy weights (ip2_val_b g))
      else Inr g)"

text \<open>
  The first loop of \<open>load_network\<close>: it counts the lines and takes the number of channels from
  the line it reads when \<open>linecount\<close> is 2. \<open>channels\<close> is an \<open>int\<close>, the count a \<open>ptrdiff_t\<close>.
\<close>

fun count_pass :: "64 word \<Rightarrow> int \<Rightarrow> string list \<Rightarrow> 64 word \<times> int" where
  "count_pass linecount channels [] = (linecount, channels)"
| "count_pass linecount channels (line # lines) =
     count_pass (linecount + 1)
       (if linecount = 2 then sint (word_of_nat (count_tokens False line) :: 32 word) else channels)
       lines"

text \<open>
  The second loop. \<open>parse\<close> stands for Boost Spirit's \<open>phrase_parse\<close> of \<open>*x3::float_\<close> with
  the skipper \<open>x3::space\<close>: \<open>parse line = Some weights\<close> when the whole line was consumed. The
  flag of the result is false when a line failed to parse, where the source returns \<open>{0, 0}\<close>.
\<close>

fun second_pass ::
  "(string \<Rightarrow> real list option) \<Rightarrow> 64 word \<Rightarrow> 64 word \<Rightarrow> string list \<Rightarrow> globals
    \<Rightarrow> fault + (bool \<times> globals)" where
  "second_pass parse plain_conv_wts linecount [] g = Inr (True, g)"
| "second_pass parse plain_conv_wts linecount (line # lines) g =
     (case parse line of
        None \<Rightarrow> Inr (False, g)
      | Some weights \<Rightarrow>
          (case store_line plain_conv_wts linecount weights g of
             Inl e \<Rightarrow> Inl e
           | Inr g' \<Rightarrow> second_pass parse plain_conv_wts (linecount + 1) lines g'))"

text \<open>
  \<open>load_network(wtfile)\<close>. The result is the pair returned and the static variables after the
  call; the messages printed are left out. After \<open>seekg(0)\<close> the stream is read again from its
  first character. The returned pair is of \<open>int\<close>: the \<open>size_t\<close> \<open>residual_blocks\<close> is
  truncated to 32 bits.
\<close>

definition load_network ::
  "(string \<Rightarrow> real list option) \<Rightarrow> constants \<Rightarrow> string \<Rightarrow> globals \<Rightarrow> fault + ((int \<times> int) \<times> globals)" where
  "load_network parse K wtfile g =
     (case getline wtfile of
        None \<Rightarrow> Inr ((0, 0), g)
      | Some (line, rest) \<Rightarrow>
          let (failed, v) = extract_size_t line;
              g = g\<lparr>m_format_version := v\<rparr>
          in if failed \<or> m_format_version g > MAX_FORMAT_VERSION K \<or> m_format_version g < 1
             then Inr ((0, 0), g)
             else
               let (linecount, channels) = count_pass 1 0 (getlines rest);
                   residual_blocks = linecount - (1 + 4 + 14)
               in if residual_blocks mod 8 \<noteq> 0 then Inr ((0, 0), g)
                  else
                    let residual_blocks = residual_blocks div 8;
                        rest = (case getline wtfile of None \<Rightarrow> [] | Some (line, rest) \<Rightarrow> rest);
                        plain_conv_layers = 1 + (residual_blocks * 2);
                        plain_conv_wts = plain_conv_layers * 4
                    in (case second_pass parse plain_conv_wts 0 (getlines rest) g of
                          Inl e \<Rightarrow> Inl e
                        | Inr (ok, g) \<Rightarrow>
                            if ok then Inr ((channels, sint (ucast residual_blocks :: 32 word)), g)
                            else Inr ((0, 0), g)))"




text \<open>
  Values for the examples: constants as the engine has them for the two network formats, the
  static variables before anything is loaded, a file given by its lines, and a stand-in for
  Spirit's parser that accepts the lines of unsigned decimal integers (which \<open>x3::float_\<close>
  parses to the same numbers) and no other line.
\<close>

definition example_constants :: constants where
  "example_constants =
     \<lparr>MAX_FORMAT_VERSION = 2, V1_INPUT_CHANNELS = 120, V2_INPUT_CHANNELS = 112,
      V1_NUM_OUTPUT_POLICY = 1924, V2_NUM_OUTPUT_POLICY = 1858,
      NUM_POLICY_INPUT_PLANES = 32, NUM_VALUE_INPUT_PLANES = 32, NUM_VALUE_CHANNELS = 128\<rparr>"

definition initial_globals :: "constants \<Rightarrow> globals" where
  "initial_globals K =
     \<lparr>m_format_version = 0,
      conv_weights = [], conv_biases = [], batchnorm_means = [], batchnorm_stddivs = [],
      conv_pol_w = [], conv_pol_b = [],
      bn_pol_w1 = replicate (NUM_POLICY_INPUT_PLANES K) 0,
      bn_pol_w2 = replicate (NUM_POLICY_INPUT_PLANES K) 0,
      v1_ip_pol_w = replicate (V1_NUM_OUTPUT_POLICY K * 8 * 8 * NUM_POLICY_INPUT_PLANES K) 0,
      v1_ip_pol_b = replicate (V1_NUM_OUTPUT_POLICY K) 0,
      v2_ip_pol_w = replicate (V2_NUM_OUTPUT_POLICY K * 8 * 8 * NUM_POLICY_INPUT_PLANES K) 0,
      v2_ip_pol_b = replicate (V2_NUM_OUTPUT_POLICY K) 0,
      conv_val_w = [], conv_val_b = [],
      bn_val_w1 = replicate (NUM_VALUE_INPUT_PLANES K) 0,
      bn_val_w2 = replicate (NUM_VALUE_INPUT_PLANES K) 0,
      ip1_val_w = replicate (NUM_VALUE_CHANNELS K * 8 * 8 * NUM_VALUE_INPUT_PLANES K) 0,
      ip1_val_b = replicate (NUM_VALUE_CHANNELS K) 0,
      ip2_val_w = replicate (NUM_VALUE_CHANNELS K) 0,
      ip2_val_b = replicate 1 0\<rparr>"

fun tokens_of :: "string \<Rightarrow> string \<Rightarrow> string list" where
  "tokens_of cur [] = (if cur = [] then [] else [cur])"
| "tokens_of cur (c # cs) =
     (if isspace c then (if cur = [] then [] else [cur]) @ tokens_of [] cs
      else tokens_of (cur @ [c]) cs)"

definition unsigned_line :: "string \<Rightarrow> real list option" where
  "unsigned_line s =
     (let ts = tokens_of [] s
      in if list_all (list_all isdigit) ts then Some (map (\<lambda>t. real (decimal t)) ts) else None)"

definition unlines :: "string list \<Rightarrow> string" where
  "unlines ls = concat (map (\<lambda>l. l @ [CHR 0x0A]) ls)"

definition eleven_lines :: string where
  "eleven_lines = unlines [''1'', ''0'', ''0'', ''0'', ''0'', ''0'', ''0'', ''0'', ''0'', ''0'', ''0'']"

section \<open>network\_old.cpp: batch normalisation\<close>

definition lambda_ReLU :: "real \<Rightarrow> real" where
  "lambda_ReLU val = (if val > 0 then val else 0)"

text \<open>
  \<open>batchnorm<spatial_size>(channels, data, means, stddivs, eltwise)\<close>. The arrays behind
  the pointers \<open>means\<close> and \<open>stddivs\<close> are lists, the nullable \<open>eltwise\<close> is an option.
  Each \<open>for\<close> loop is a \<open>fold\<close> over its index range, the vector \<open>data\<close> is the state.
\<close>

definition batchnorm ::
  "nat \<Rightarrow> nat \<Rightarrow> real list \<Rightarrow> real list \<Rightarrow> real list \<Rightarrow> real list option \<Rightarrow> real list" where
  "batchnorm spatial_size channels data means stddivs eltwise =
     fold (\<lambda>c data.
        let mean = means ! c; scale_stddiv = stddivs ! c in
        (case eltwise of
           None \<Rightarrow>
             fold (\<lambda>b data.
                 data[c * spatial_size + b :=
                   lambda_ReLU (scale_stddiv * (data ! (c * spatial_size + b) - mean))])
               [0..<spatial_size] data
         | Some res \<Rightarrow>
             fold (\<lambda>b data.
                 data[c * spatial_size + b :=
                   lambda_ReLU (res ! (c * spatial_size + b)
                     + (scale_stddiv * (data ! (c * spatial_size + b) - mean)))])
               [0..<spatial_size] data))
       [0..<channels] data"

text \<open>What the claim about \<open>batchnorm\<close> says a cell \<open>k\<close> of the buffer becomes.\<close>

definition bn_cell :: "nat \<Rightarrow> real list \<Rightarrow> real list \<Rightarrow> real list option \<Rightarrow> nat \<Rightarrow> real \<Rightarrow> real" where
  "bn_cell S means stddivs eltwise k x =
     max 0 (stddivs ! (k div S) * (x - means ! (k div S))
            + (case eltwise of None \<Rightarrow> 0 | Some res \<Rightarrow> res ! k))"

section \<open>network\_old.cpp: Winograd filter transform\<close>

text \<open>
  Modelled from the spec: the constants \<open>WINOGRAD_ALPHA\<close> and \<open>WINOGRAD_TILE\<close> are declared in
  network\_old.h, which is not among the sources. The spec fixes F(2x2, 3x3) with 4x4 tiles and
  16 tile coordinates, and the source agrees: it takes \<open>8 * 8 / WINOGRAD_ALPHA\<close> for the 16
  tiles of the board and \<open>WINOGRAD_ALPHA * WINOGRAD_ALPHA\<close> for the length of a transformed
  filter.
\<close>

definition WINOGRAD_ALPHA :: nat where "WINOGRAD_ALPHA = 4"
definition WINOGRAD_TILE :: nat where "WINOGRAD_TILE = WINOGRAD_ALPHA * WINOGRAD_ALPHA"





text \<open>\<open>zeropad_U(U, outputs, channels, outputs_pad, channels_pad)\<close>.\<close>

definition zeropad_U :: "real list \<Rightarrow> nat \<Rightarrow> nat \<Rightarrow> nat \<Rightarrow> nat \<Rightarrow> real list" where
  "zeropad_U U outputs channels outputs_pad channels_pad =
     (let Upad = replicate (WINOGRAD_TILE * outputs_pad * channels_pad) 0 in
      fold (\<lambda>o' Upad.
        fold (\<lambda>c Upad.
          fold (\<lambda>xi Upad.
            fold (\<lambda>nu Upad.
                Upad[xi * (WINOGRAD_ALPHA * outputs_pad * channels_pad)
                     + nu * (outputs_pad * channels_pad)
                     + c * outputs_pad
                     + o' :=
                  U ! (xi * (WINOGRAD_ALPHA * outputs * channels)
                       + nu * (outputs * channels)
                       + c * outputs
                       + o')])
              [0..<WINOGRAD_ALPHA] Upad)
            [0..<WINOGRAD_ALPHA] Upad)
          [0..<channels] Upad)
        [0..<outputs] Upad)"




text \<open>
  The flat index of the layout \<open>U[\<xi>, \<nu>, c, o]\<close>, and what the loops leave in the cell \<open>k\<close>
  of \<open>temp\<close>, of the transformed filter and of the padded filter.
\<close>

definition tile_index :: "nat \<Rightarrow> nat \<Rightarrow> nat \<Rightarrow> nat \<Rightarrow> nat \<Rightarrow> nat \<Rightarrow> nat" where
  "tile_index K C xi nu c o' = xi * (4 * K * C) + nu * (K * C) + c * K + o'"



definition zeropad_cell :: "real list \<Rightarrow> nat \<Rightarrow> nat \<Rightarrow> nat \<Rightarrow> nat \<Rightarrow> nat \<Rightarrow> real" where
  "zeropad_cell U K C Kp Cp k =
     U ! tile_index K C (k div (4 * Kp * Cp)) (k div (Kp * Cp) mod 4) (k div Kp mod Cp) (k mod Kp)"

section \<open>network\_old.cpp: softmax\<close>




section \<open>network\_old.cpp: the self-check comparator\<close>

text \<open>
  \<open>std::isnan\<close>, \<open>std::max(a, b)\<close>, which is \<open>(a < b) ? b : a\<close>, and
  \<open>std::numeric_limits<float>::max()\<close>, the largest finite float \<open>(2\<^sup>2\<^sup>4 - 1) \<cdot> 2\<^sup>1\<^sup>0\<^sup>4\<close>.
\<close>

definition isnan :: "binary32 \<Rightarrow> bool" where
  "isnan x \<longleftrightarrow> x = NaN32"

definition std_max :: "'a::ord \<Rightarrow> 'a \<Rightarrow> 'a" where
  "std_max a b = (if a < b then b else a)"

definition FLT_MAX :: binary32 where
  "FLT_MAX = Finite 16777215 104"

text \<open>The literal \<open>1e-3f\<close>: the float nearest to 1/1000, which is \<open>8589935 \<cdot> 2\<^sup>-\<^sup>3\<^sup>3\<close>.\<close>

definition small_number :: binary32 where
  "small_number = b32 1 / b32 1000"

text \<open>
  \<open>relative_difference<float>(a, b)\<close>. \<open>fa > small_number\<close> is \<open>small_number < fa\<close>, and
  \<open>a != 0\<close> is the negation of the comparison \<open>==\<close>.
\<close>

definition relative_difference :: "binary32 \<Rightarrow> binary32 \<Rightarrow> binary32" where
  "relative_difference a b =
     (if isnan a \<or> isnan b then FLT_MAX
      else
        let fa = fabs a; fb = fabs b in
        if (small_number < fa \<and> small_number < fb)
           \<and> (((a < 0) \<noteq> (b < 0)) \<and> \<not> eq32 a 0 \<and> \<not> eq32 b 0)
        then FLT_MAX
        else
          let fa = std_max fa small_number;
              fb = std_max fb small_number
          in std_max (fabs ((fa - fb) / fa)) (fabs ((fa - fb) / fb)))"

text \<open>
  \<open>compare_net_outputs(data, ref, fatal, display_only, info)\<close>. The state of the loop is the
  local \<open>almost_equal\<close>, the reference parameter \<open>fatal\<close>, the static counter
  \<open>num_expansions\<close>, and what the error \<open>printf\<close> has printed so far: for each flagged element
  the expected value \<open>ref[idx]\<close>, the value got \<open>data[idx]\<close>, the counter and the error (before
  its scaling to percent). The \<open>printf\<close> of the display-only mode is not recorded.
  \<open>compare_element\<close> is the body of the loop. \<open>relative_error\<close> is the literal \<open>10e-2f\<close>, the
  float nearest to 1/10.
\<close>

definition SELFCHECK_MIN_EXPANSIONS :: int where "SELFCHECK_MIN_EXPANSIONS = 2000000"
definition SELFCHECK_PROBABILITY :: int where "SELFCHECK_PROBABILITY = 2000"
definition min_correct_expansions :: int where
  "min_correct_expansions = SELFCHECK_MIN_EXPANSIONS div SELFCHECK_PROBABILITY div 2"
definition relative_error :: binary32 where "relative_error = b32 1 / b32 10"

record compare_state =
  almost_equal :: bool
  fatal :: bool
  num_expansions :: int
  printed :: "(binary32 \<times> binary32 \<times> int \<times> binary32) list"

definition compare_element ::
  "binary32 list \<Rightarrow> binary32 list \<Rightarrow> bool \<Rightarrow> nat \<Rightarrow> compare_state \<Rightarrow> compare_state" where
  "compare_element data ref display_only idx s =
     (let err = relative_difference (data ! idx) (ref ! idx) in
      if display_only then s
      else if relative_error < err then
        (let s = s\<lparr>almost_equal := False,
                   printed := printed s @ [(ref ! idx, data ! idx, num_expansions s, err)]\<rparr>
         in if num_expansions s < min_correct_expansions
            then s\<lparr>fatal := True\<rparr>
            else s\<lparr>num_expansions := num_expansions s - min_correct_expansions\<rparr>)
      else s)"

definition compare_net_outputs ::
  "binary32 list \<Rightarrow> binary32 list \<Rightarrow> bool \<Rightarrow> bool \<Rightarrow> int \<Rightarrow> compare_state" where
  "compare_net_outputs data ref fatal_in display_only num_expansions_in =
     fold (compare_element data ref display_only) [0..<length data]
       \<lparr>almost_equal = True, fatal = fatal_in,
        num_expansions = min (num_expansions_in + 1) (3 * min_correct_expansions),
        printed = []\<rparr>"

text \<open>
  The words of the claim about the comparator, to compare the code with. A float is finite
  when it is neither NaN nor an infinity. A magnitude below \<open>10\<^sup>-\<^sup>3\<close> is clamped up to
  \<open>10\<^sup>-\<^sup>3\<close>; the error of a pair is maximal when a value is NaN or when the signs differ and both
  magnitudes exceed \<open>10\<^sup>-\<^sup>3\<close>, and otherwise the larger of the two relative differences of the
  clamped magnitudes, computed in floats; an element is a mismatch when its error exceeds the
  float 0.1.
\<close>

definition finite_or_nan :: "binary32 \<Rightarrow> bool" where
  "finite_or_nan x \<longleftrightarrow> x \<noteq> PInf \<and> x \<noteq> MInf"

definition clamped :: "binary32 \<Rightarrow> binary32" where
  "clamped x = (if fabs x < b32 1 / b32 1000 then b32 1 / b32 1000 else fabs x)"

definition claimed_error :: "binary32 \<Rightarrow> binary32 \<Rightarrow> binary32" where
  "claimed_error a b =
     (if a = NaN32 \<or> b = NaN32 then FLT_MAX
      else if b32 1 / b32 1000 < fabs a \<and> b32 1 / b32 1000 < fabs b
              \<and> ((a < 0 \<and> 0 < b) \<or> (0 < a \<and> b < 0))
      then FLT_MAX
      else std_max (fabs (clamped a - clamped b) / clamped a)
             (fabs (clamped a - clamped b) / clamped b))"

definition mismatch :: "binary32 \<Rightarrow> binary32 \<Rightarrow> bool" where
  "mismatch a b \<longleftrightarrow> b32 1 / b32 10 < claimed_error a b"

section \<open>network\_old.cpp: Winograd convolution\<close>




























section \<open>network\_old.cpp: the forward pass\<close>

unbundle bit_operations_syntax





text \<open>
  \<open>cblas_sgemv(CblasRowMajor, CblasNoTrans, M, N, alpha, A, lda, X, 1, beta, Y, 1)\<close> of the BLAS
  library, \<open>Y \<leftarrow> alpha \<cdot> A \<cdot> X + beta \<cdot> Y\<close>, by the reference semantics of the call.
\<close>

definition cblas_sgemv ::
  "nat \<Rightarrow> nat \<Rightarrow> real \<Rightarrow> real list \<Rightarrow> nat \<Rightarrow> real list \<Rightarrow> real \<Rightarrow> real list \<Rightarrow> real list" where
  "cblas_sgemv M N alpha A lda X beta Y =
     fold (\<lambda>i Y. Y[i := alpha * (\<Sum>j\<leftarrow>[0..<N]. A ! (i * lda + j) * X ! j) + beta * Y ! i]) [0..<M] Y"














section \<open>Reasoning about loops that fill arrays\<close>

text \<open>
  \<open>pointwise F h\<close>: the array transformer \<open>F\<close> keeps the length and sets every cell \<open>k\<close>
  to \<open>h k\<close> of the cell's old content. A cell that \<open>F\<close> leaves alone has \<open>h k = None\<close>.
\<close>

definition cell :: "('a \<Rightarrow> 'a) option \<Rightarrow> 'a \<Rightarrow> 'a" where
  "cell g x = (case g of None \<Rightarrow> x | Some f \<Rightarrow> f x)"

definition pointwise :: "('a list \<Rightarrow> 'a list) \<Rightarrow> (nat \<Rightarrow> ('a \<Rightarrow> 'a) option) \<Rightarrow> bool" where
  "pointwise F h \<longleftrightarrow>
     (\<forall>xs. length (F xs) = length xs \<and> (\<forall>k < length xs. F xs ! k = cell (h k) (xs ! k)))"

section \<open>Properties\<close>

subsection \<open>Evaluating the float operations\<close>

declare bit_length.simps [simp del]

lemma bit_length_numeral:
  "bit_length 0 = 0"
  "bit_length 1 = 1"
  "bit_length (Suc 0) = 1"
  "bit_length (numeral Num.One) = 1"
  "bit_length (numeral (Num.Bit0 k)) = Suc (bit_length (numeral k))"
  "bit_length (numeral (Num.Bit1 k)) = Suc (bit_length (numeral k))"
proof -
  show "bit_length 0 = 0" "bit_length 1 = 1" "bit_length (Suc 0) = 1" "bit_length (numeral Num.One) = 1"
    by (simp_all add: bit_length.simps [of 0] bit_length.simps [of 1] bit_length.simps [of "Suc 0"])
  have "numeral (Num.Bit0 k) div (2::nat) = numeral k" "numeral (Num.Bit1 k) div (2::nat) = numeral k"
    by (simp_all add: numeral_Bit0_div_2 numeral_Bit1_div_2)
  then show "bit_length (numeral (Num.Bit0 k)) = Suc (bit_length (numeral k))"
    "bit_length (numeral (Num.Bit1 k)) = Suc (bit_length (numeral k))"
    by (simp_all add: bit_length.simps [of "numeral (Num.Bit0 k)"] bit_length.simps [of "numeral (Num.Bit1 k)"])
qed

lemmas binary32_eval =
  round_to_binary32_def drop_bits_def nearest_even_def pack_def pack_exponent_def round_signed_def
  quotient_digits_def b32_def bit_length_numeral valof_def
  zero_binary32_def one_binary32_def plus_binary32_def uminus_binary32_def minus_binary32_def
  times_binary32_def divide_binary32_def inverse_binary32_def abs_binary32_def
  less_binary32_def less_eq_binary32_def

subsection \<open>Loops\<close>

lemma pointwiseI:
  assumes "\<And>xs. length (F xs) = length xs"
    and "\<And>xs k. k < length xs \<Longrightarrow> F xs ! k = cell (h k) (xs ! k)"
  shows "pointwise F h"
  using assms by (simp add: pointwise_def)

lemma pointwise_length: "pointwise F h \<Longrightarrow> length (F xs) = length xs"
  by (simp add: pointwise_def)

lemma pointwise_nth: "pointwise F h \<Longrightarrow> k < length xs \<Longrightarrow> F xs ! k = cell (h k) (xs ! k)"
  by (simp add: pointwise_def)

lemma pointwise_update:
  "pointwise (\<lambda>xs. xs[i := g (xs ! i)]) (\<lambda>k. if k = i then Some g else None)"
  by (rule pointwiseI) (simp_all add: cell_def nth_list_update)

text \<open>
  A loop whose iterations touch disjoint sets of cells: iteration \<open>i\<close> touches the cells
  with \<open>P i k\<close> and applies \<open>g k\<close> there. The loop applies \<open>g k\<close> once to every cell some
  iteration touches.
\<close>

lemma pointwise_fold:
  fixes F :: "'i \<Rightarrow> 'a list \<Rightarrow> 'a list"
  assumes body: "\<And>i. i \<in> set is \<Longrightarrow> pointwise (F i) (\<lambda>k. if P i k then Some (g k) else None)"
    and disj: "\<And>i j k. i \<in> set is \<Longrightarrow> j \<in> set is \<Longrightarrow> P i k \<Longrightarrow> P j k \<Longrightarrow> i = j"
    and dist: "distinct is"
  shows "pointwise (fold F is) (\<lambda>k. if \<exists>i \<in> set is. P i k then Some (g k) else None)"
  using assms
proof (induction "is" rule: rev_induct)
  case Nil
  show ?case by (rule pointwiseI) (simp_all add: cell_def)
next
  case (snoc a as)
  have IH: "pointwise (fold F as) (\<lambda>k. if \<exists>i \<in> set as. P i k then Some (g k) else None)"
    using snoc by (intro snoc.IH) auto
  have A: "pointwise (F a) (\<lambda>k. if P a k then Some (g k) else None)"
    using snoc.prems(1) by simp
  have fresh: "\<And>k. P a k \<Longrightarrow> \<not> (\<exists>i \<in> set as. P i k)"
    using snoc.prems(2) [of a] snoc.prems(3) by auto
  show ?case
  proof (rule pointwiseI)
    fix xs :: "'a list"
    show "length (fold F (as @ [a]) xs) = length xs"
      by (simp add: pointwise_length [OF A] pointwise_length [OF IH])
  next
    fix xs :: "'a list" and k
    assume k: "k < length xs"
    then have k': "k < length (fold F as xs)"
      by (simp add: pointwise_length [OF IH])
    show "fold F (as @ [a]) xs ! k =
        cell (if \<exists>i \<in> set (as @ [a]). P i k then Some (g k) else None) (xs ! k)"
      using fresh [of k]
      by (auto simp: pointwise_nth [OF A k'] pointwise_nth [OF IH k] cell_def)
  qed
qed

lemma pointwise_fold_upt:
  assumes "\<And>i. i < n \<Longrightarrow> pointwise (F i) (\<lambda>k. if P i k then Some (g k) else None)"
    and "\<And>i j k. i < n \<Longrightarrow> j < n \<Longrightarrow> P i k \<Longrightarrow> P j k \<Longrightarrow> i = j"
  shows "pointwise (fold F [0..<n]) (\<lambda>k. if \<exists>i < n. P i k then Some (g k) else None)"
proof -
  have "pointwise (fold F [0..<n])
      (\<lambda>k. if \<exists>i \<in> set [0..<n]. P i k then Some (g k) else None)"
    by (rule pointwise_fold) (use assms in auto)
  moreover have "(\<exists>i \<in> set [0..<n]. P i k) \<longleftrightarrow> (\<exists>i < n. P i k)" for k
    by auto
  ultimately show ?thesis by simp
qed


lemma pointwise_cong: "pointwise F h \<Longrightarrow> (\<And>k. h k = h' k) \<Longrightarrow> pointwise F h'"
  by (simp add: pointwise_def)

subsection \<open>The loader\<close>

lemma getlines_simps:
  "getlines [] = []"
  "getlines (c # s) = takeWhile (\<lambda>c. c \<noteq> CHR 0x0A) (c # s)
     # getlines (drop 1 (dropWhile (\<lambda>c. c \<noteq> CHR 0x0A) (c # s)))"
  by (simp_all del: takeWhile.simps dropWhile.simps)

declare getlines.simps [simp del]






lemma char_simps [simp]:
  "\<not> isspace CHR ''0''" "\<not> isspace CHR ''1''" "\<not> isspace CHR ''3''" "\<not> isspace CHR ''a''"
  "isdigit CHR ''0''" "isdigit CHR ''1''" "isdigit CHR ''3''" "\<not> isdigit CHR ''a''"
  "digit_value CHR ''0'' = 0" "digit_value CHR ''1'' = 1" "digit_value CHR ''3'' = 3"
  by (simp_all add: isspace_def isdigit_def digit_value_def)

lemma extract_examples:
  "extract_size_t ''abc'' = (True, 0)"
  "extract_size_t ''0'' = (False, 0)"
  "extract_size_t ''1'' = (False, 1)"
  "extract_size_t ''3'' = (False, 3)"
  by (simp_all add: extract_size_t_def decimal_def)


lemma unsigned_line_0: "unsigned_line ''0'' = Some [0]"
  by (simp add: unsigned_line_def decimal_def)

text \<open>
  C7. A file of 11 lines has \<open>(11 - 1 - 4 - 14) / 8 = -1\<close> residual blocks. The source computes
  \<open>linecount - 19\<close> on a \<open>size_t\<close>, where it wraps to \<open>2\<^sup>6\<^sup>4 - 8\<close>, a multiple of 8: the file is
  not rejected, its ten weight lines are stored, and the pair returned is \<open>{1, -1}\<close>.
\<close>

theorem load_network_eleven_lines:
  "map_sum id fst (load_network unsigned_line example_constants eleven_lines
      (initial_globals example_constants)) = Inr (1, - 1)"
proof -
  have gl: "getline eleven_lines = Some (''1'', unlines [''0'', ''0'', ''0'', ''0'', ''0'', ''0'', ''0'', ''0'', ''0'', ''0''])"
    by (simp add: eleven_lines_def unlines_def)
  have rest: "getlines (unlines [''0'', ''0'', ''0'', ''0'', ''0'', ''0'', ''0'', ''0'', ''0'', ''0''])
      = [''0'', ''0'', ''0'', ''0'', ''0'', ''0'', ''0'', ''0'', ''0'', ''0'']"
    by (simp add: unlines_def getlines_simps)
  have cnt: "count_pass 1 0 [''0'', ''0'', ''0'', ''0'', ''0'', ''0'', ''0'', ''0'', ''0'', ''0''] = (11, 1)"
    by simp
  show ?thesis
    by (simp add: load_network_def gl rest cnt extract_examples example_constants_def
        store_line_def unsigned_line_0)
qed

subsection \<open>Batch normalisation\<close>

lemma lambda_ReLU_max: "lambda_ReLU v = max 0 v"
  by (simp add: lambda_ReLU_def max_def)

lemma div_row: "b < S \<Longrightarrow> (c * S + b) div S = (c::nat)"
  by simp

lemma row_unique: "b < S \<Longrightarrow> b' < S \<Longrightarrow> c * S + b = c' * S + b' \<Longrightarrow> c = (c'::nat)"
  by (metis div_row)

lemma batchnorm_channel:
  assumes "c < channels"
  shows "pointwise
     (\<lambda>data. let mean = means ! c; scale_stddiv = stddivs ! c in
        (case eltwise of
           None \<Rightarrow>
             fold (\<lambda>b data.
                 data[c * S + b :=
                   lambda_ReLU (scale_stddiv * (data ! (c * S + b) - mean))])
               [0..<S] data
         | Some res \<Rightarrow>
             fold (\<lambda>b data.
                 data[c * S + b :=
                   lambda_ReLU (res ! (c * S + b)
                     + (scale_stddiv * (data ! (c * S + b) - mean)))])
               [0..<S] data))
     (\<lambda>k. if \<exists>b < S. k = c * S + b then Some (bn_cell S means stddivs eltwise k) else None)"
proof (cases eltwise)
  case None
  have "pointwise (fold (\<lambda>b data. data[c * S + b :=
                   lambda_ReLU (stddivs ! c * (data ! (c * S + b) - means ! c))]) [0..<S])
     (\<lambda>k. if \<exists>b < S. k = c * S + b then Some (bn_cell S means stddivs eltwise k) else None)"
  proof (rule pointwise_fold_upt)
    fix b assume b: "b < S"
    show "pointwise (\<lambda>data. data[c * S + b :=
                   lambda_ReLU (stddivs ! c * (data ! (c * S + b) - means ! c))])
       (\<lambda>k. if k = c * S + b then Some (bn_cell S means stddivs eltwise k) else None)"
      by (rule pointwise_cong [OF pointwise_update])
        (use b None in \<open>auto simp: bn_cell_def lambda_ReLU_max fun_eq_iff\<close>)
  qed simp
  then show ?thesis using None by simp
next
  case (Some res)
  have "pointwise (fold (\<lambda>b data. data[c * S + b :=
                   lambda_ReLU (res ! (c * S + b) + stddivs ! c * (data ! (c * S + b) - means ! c))]) [0..<S])
     (\<lambda>k. if \<exists>b < S. k = c * S + b then Some (bn_cell S means stddivs eltwise k) else None)"
  proof (rule pointwise_fold_upt)
    fix b assume b: "b < S"
    show "pointwise (\<lambda>data. data[c * S + b :=
                   lambda_ReLU (res ! (c * S + b) + stddivs ! c * (data ! (c * S + b) - means ! c))])
       (\<lambda>k. if k = c * S + b then Some (bn_cell S means stddivs eltwise k) else None)"
      by (rule pointwise_cong [OF pointwise_update])
        (use b Some in \<open>auto simp: bn_cell_def lambda_ReLU_max fun_eq_iff\<close>)
  qed simp
  then show ?thesis using Some by simp
qed

lemma batchnorm_pointwise:
  "pointwise (\<lambda>data. batchnorm S channels data means stddivs eltwise)
     (\<lambda>k. if \<exists>c < channels. \<exists>b < S. k = c * S + b
           then Some (bn_cell S means stddivs eltwise k) else None)"
  unfolding batchnorm_def
  by (rule pointwise_fold_upt) (auto intro: batchnorm_channel dest: row_unique)

text \<open>
  C5. For every channel count, data buffer holding \<open>channels * spatial_size\<close> floats, mean
  array and reciprocal-stddev array, \<open>batchnorm\<close> replaces each element \<open>x[c,b]\<close> by
  \<open>max 0 (stddev[c] * (x[c,b] - means[c]) + eltwise[c,b])\<close>, the eltwise term being 0 when
  no eltwise buffer is supplied; the buffer keeps its length and no other element changes.
\<close>

theorem batchnorm_spec:
  assumes "channels * S \<le> length data" "channels \<le> length means" "channels \<le> length stddivs"
    and "case eltwise of None \<Rightarrow> True | Some res \<Rightarrow> channels * S \<le> length res"
  shows "length (batchnorm S channels data means stddivs eltwise) = length data
    \<and> (\<forall>c < channels. \<forall>b < S.
          batchnorm S channels data means stddivs eltwise ! (c * S + b)
            = max 0 (stddivs ! c * (data ! (c * S + b) - means ! c)
                     + (case eltwise of None \<Rightarrow> 0 | Some res \<Rightarrow> res ! (c * S + b))))
    \<and> (\<forall>k. channels * S \<le> k \<and> k < length data \<longrightarrow>
          batchnorm S channels data means stddivs eltwise ! k = data ! k)"
proof (intro conjI allI impI)
  show "length (batchnorm S channels data means stddivs eltwise) = length data"
    by (rule pointwise_length [OF batchnorm_pointwise])
next
  fix c b assume cb: "c < channels" "b < S"
  have "c * S + b < Suc c * S" using cb by simp
  also have "\<dots> \<le> channels * S" using cb by (intro mult_le_mono1) simp
  finally have k: "c * S + b < length data" using assms(1) by simp
  show "batchnorm S channels data means stddivs eltwise ! (c * S + b)
            = max 0 (stddivs ! c * (data ! (c * S + b) - means ! c)
                     + (case eltwise of None \<Rightarrow> 0 | Some res \<Rightarrow> res ! (c * S + b)))"
    using cb by (auto simp: pointwise_nth [OF batchnorm_pointwise k] cell_def bn_cell_def)
next
  fix k assume k: "channels * S \<le> k \<and> k < length data"
  have "\<not> (\<exists>c < channels. \<exists>b < S. k = c * S + b)"
  proof
    assume "\<exists>c < channels. \<exists>b < S. k = c * S + b"
    then obtain c b where "c < channels" "b < S" "k = c * S + b" by blast
    then have "k < Suc c * S" by simp
    also have "\<dots> \<le> channels * S" using \<open>c < channels\<close> by (intro mult_le_mono1) simp
    finally show False using k by simp
  qed
  then show "batchnorm S channels data means stddivs eltwise ! k = data ! k"
    using k by (auto simp: pointwise_nth [OF batchnorm_pointwise] cell_def)
qed

theorem batchnorm_spec_witness:
  "length (batchnorm 2 1 [3, - 1] [1] [2] (Some [0, 5])) = 2
   \<and> batchnorm 2 1 [3, - 1] [1] [2] (Some [0, 5]) ! 0 = 4
   \<and> batchnorm 2 1 [3, - 1] [1] [2] (Some [0, 5]) ! 1 = 1
   \<and> batchnorm 2 1 [3, - 1] [1] [2] None ! 1 = 0"
  using batchnorm_spec [of 1 2 "[3, - 1]" "[1]" "[2]" "Some [0, 5]"]
    batchnorm_spec [of 1 2 "[3, - 1]" "[1]" "[2]" None]
  by (simp add: less_2_cases_iff)

subsection \<open>The layout of a transformed filter, and its zero padding\<close>

lemma radix_unique:
  fixes q :: nat
  assumes "r < m" "r' < m" "q * m + r = q' * m + r'"
  shows "q = q' \<and> r = r'"
proof -
  have "(q * m + r) div m = (q' * m + r') div m" using assms(3) by simp
  then have "q = q'" using assms(1,2) by simp
  then show ?thesis using assms(3) by simp
qed

lemma tile_index_horner: "tile_index K C xi nu c o' = ((xi * 4 + nu) * C + c) * K + o'"
  by (simp add: tile_index_def algebra_simps)

lemma tile_index_inj:
  assumes "o1 < K" "o2 < K" "c1 < C" "c2 < C" "nu1 < 4" "nu2 < 4"
    and "tile_index K C xi1 nu1 c1 o1 = tile_index K C xi2 nu2 c2 o2"
  shows "xi1 = xi2 \<and> nu1 = nu2 \<and> c1 = c2 \<and> o1 = o2"
proof -
  have 1: "(xi1 * 4 + nu1) * C + c1 = (xi2 * 4 + nu2) * C + c2" "o1 = o2"
    using radix_unique [OF assms(1,2)] assms(7) by (simp_all add: tile_index_horner)
  have 2: "xi1 * 4 + nu1 = xi2 * 4 + nu2" "c1 = c2"
    using radix_unique [OF assms(3,4) 1(1)] by simp_all
  show ?thesis using radix_unique [OF assms(5,6) 2(1)] 1 2 by simp
qed

lemma tile_index_less:
  assumes "o1 < K" "c < C" "nu < 4" "xi < 4"
  shows "tile_index K C xi nu c o1 < 16 * K * C"
proof -
  have "xi * 4 + nu + 1 \<le> 16" using assms by simp
  have "(xi * 4 + nu) * C + c + 1 \<le> (xi * 4 + nu + 1) * C" using assms by (simp add: algebra_simps)
  also have "\<dots> \<le> 16 * C" using \<open>xi * 4 + nu + 1 \<le> 16\<close> by (rule mult_le_mono1)
  finally have a: "(xi * 4 + nu) * C + c + 1 \<le> 16 * C" .
  have "tile_index K C xi nu c o1 < ((xi * 4 + nu) * C + c + 1) * K"
    using assms by (simp add: tile_index_horner algebra_simps)
  also have "\<dots> \<le> 16 * C * K" using a by (rule mult_le_mono1)
  finally show ?thesis by (simp add: mult_ac)
qed

lemma tile_index_decode:
  assumes "o1 < K" "c < C" "nu < 4"
  shows "tile_index K C xi nu c o1 mod K = o1"
    and "tile_index K C xi nu c o1 div K mod C = c"
    and "tile_index K C xi nu c o1 div (K * C) mod 4 = nu"
    and "tile_index K C xi nu c o1 div (4 * K * C) = xi"
proof -
  show 1: "tile_index K C xi nu c o1 mod K = o1" using assms by (simp add: tile_index_horner)
  have d1: "tile_index K C xi nu c o1 div K = (xi * 4 + nu) * C + c"
    using assms by (simp add: tile_index_horner)
  show "tile_index K C xi nu c o1 div K mod C = c" using assms by (simp add: d1)
  have d2: "tile_index K C xi nu c o1 div (K * C) = xi * 4 + nu"
    using assms by (simp add: div_mult2_eq d1)
  show "tile_index K C xi nu c o1 div (K * C) mod 4 = nu" using assms by (simp add: d2)
  have "tile_index K C xi nu c o1 div (4 * K * C) = tile_index K C xi nu c o1 div (K * C) div 4"
    by (simp add: div_mult2_eq mult.commute mult.left_commute)
  then show "tile_index K C xi nu c o1 div (4 * K * C) = xi" using assms by (simp add: d2)
qed

lemma zeropad_pointwise:
  assumes "K \<le> Kp" "C \<le> Cp"
  shows "pointwise
     (fold (\<lambda>o' Upad.
        fold (\<lambda>c Upad.
          fold (\<lambda>xi Upad.
            fold (\<lambda>nu Upad.
                Upad[xi * (4 * Kp * Cp) + nu * (Kp * Cp) + c * Kp + o' :=
                  U ! (xi * (4 * K * C) + nu * (K * C) + c * K + o')])
              [0..<4] Upad)
            [0..<4] Upad)
          [0..<C] Upad)
        [0..<K])
     (\<lambda>k. if \<exists>o'<K. \<exists>c<C. \<exists>xi<4. \<exists>nu<4. k = tile_index Kp Cp xi nu c o'
          then Some (\<lambda>_. zeropad_cell U K C Kp Cp k) else None)"
proof (rule pointwise_fold_upt)
  fix o1 assume o1: "o1 < K"
  show "pointwise
        (fold (\<lambda>c Upad.
          fold (\<lambda>xi Upad.
            fold (\<lambda>nu Upad.
                Upad[xi * (4 * Kp * Cp) + nu * (Kp * Cp) + c * Kp + o1 :=
                  U ! (xi * (4 * K * C) + nu * (K * C) + c * K + o1)])
              [0..<4] Upad)
            [0..<4] Upad)
          [0..<C])
        (\<lambda>k. if \<exists>c<C. \<exists>xi<4. \<exists>nu<4. k = tile_index Kp Cp xi nu c o1
          then Some (\<lambda>_. zeropad_cell U K C Kp Cp k) else None)"
  proof (rule pointwise_fold_upt)
    fix c assume c: "c < C"
    show "pointwise
          (fold (\<lambda>xi Upad.
            fold (\<lambda>nu Upad.
                Upad[xi * (4 * Kp * Cp) + nu * (Kp * Cp) + c * Kp + o1 :=
                  U ! (xi * (4 * K * C) + nu * (K * C) + c * K + o1)])
              [0..<4] Upad)
            [0..<4])
          (\<lambda>k. if \<exists>xi<4. \<exists>nu<4. k = tile_index Kp Cp xi nu c o1
            then Some (\<lambda>_. zeropad_cell U K C Kp Cp k) else None)"
    proof (rule pointwise_fold_upt)
      fix xi :: nat assume xi: "xi < 4"
      show "pointwise
            (fold (\<lambda>nu Upad.
                Upad[xi * (4 * Kp * Cp) + nu * (Kp * Cp) + c * Kp + o1 :=
                  U ! (xi * (4 * K * C) + nu * (K * C) + c * K + o1)])
              [0..<4])
            (\<lambda>k. if \<exists>nu<4. k = tile_index Kp Cp xi nu c o1
              then Some (\<lambda>_. zeropad_cell U K C Kp Cp k) else None)"
      proof (rule pointwise_fold_upt)
        fix nu :: nat assume nu: "nu < 4"
        have dec: "zeropad_cell U K C Kp Cp (tile_index Kp Cp xi nu c o1)
            = U ! tile_index K C xi nu c o1"
          using o1 c nu assms by (simp add: zeropad_cell_def tile_index_decode)
        show "pointwise
            (\<lambda>Upad. Upad[xi * (4 * Kp * Cp) + nu * (Kp * Cp) + c * Kp + o1 :=
                  U ! (xi * (4 * K * C) + nu * (K * C) + c * K + o1)])
            (\<lambda>k. if k = tile_index Kp Cp xi nu c o1
              then Some (\<lambda>_. zeropad_cell U K C Kp Cp k) else None)"
          unfolding tile_index_def [symmetric]
          by (rule pointwise_cong [OF pointwise_update]) (simp add: dec)
      qed (use o1 c assms in \<open>auto dest!: tile_index_inj [rotated -1]\<close>)
    qed (use o1 c assms in \<open>auto dest!: tile_index_inj [rotated -1]\<close>)
  qed (use o1 assms in \<open>auto dest!: tile_index_inj [rotated -1]\<close>)
qed (use assms in \<open>auto dest!: tile_index_inj [rotated -1]\<close>)


text \<open>
  C8. For all dimensions \<open>K \<le> K_pad\<close> and \<open>C \<le> C_pad\<close>, \<open>zeropad_U U K C K_pad C_pad\<close> is a
  tensor of size \<open>16 * K_pad * C_pad\<close> whose entry at tile coordinates \<open>(\<xi>, \<nu>)\<close>, channel
  \<open>c < C\<close> and output \<open>o < K\<close> is the corresponding entry of \<open>U\<close>, and whose entry at every
  other position is 0.
\<close>

theorem zeropad_U_spec:
  assumes "K \<le> Kp" "C \<le> Cp" "length U = WINOGRAD_TILE * K * C"
  shows "length (zeropad_U U K C Kp Cp) = WINOGRAD_TILE * Kp * Cp
    \<and> (\<forall>xi<4. \<forall>nu<4. \<forall>c<Cp. \<forall>o'<Kp.
          zeropad_U U K C Kp Cp ! (xi * (4 * Kp * Cp) + nu * (Kp * Cp) + c * Kp + o')
            = (if c < C \<and> o' < K then U ! (xi * (4 * K * C) + nu * (K * C) + c * K + o') else 0))"
proof (intro conjI allI impI)
  let ?F = "fold (\<lambda>o' Upad.
        fold (\<lambda>c Upad.
          fold (\<lambda>xi Upad.
            fold (\<lambda>nu Upad.
                Upad[xi * (4 * Kp * Cp) + nu * (Kp * Cp) + c * Kp + o' :=
                  U ! (xi * (4 * K * C) + nu * (K * C) + c * K + o')])
              [0..<4] Upad)
            [0..<4] Upad)
          [0..<C] Upad)
        [0..<K]"
  have def: "zeropad_U U K C Kp Cp = ?F (replicate (16 * Kp * Cp) 0)"
    by (simp add: zeropad_U_def WINOGRAD_TILE_def WINOGRAD_ALPHA_def)
  note pw = zeropad_pointwise [OF assms(1,2), of U]
  show "length (zeropad_U U K C Kp Cp) = WINOGRAD_TILE * Kp * Cp"
    by (simp add: def pointwise_length [OF pw] WINOGRAD_TILE_def WINOGRAD_ALPHA_def)
  fix xi nu c o1 :: nat
  assume b: "xi < 4" "nu < 4" "c < Cp" "o1 < Kp"
  let ?k = "tile_index Kp Cp xi nu c o1"
  have k: "?k < length (replicate (16 * Kp * Cp) (0::real))"
    using tile_index_less [OF b(4,3,2,1)] by simp
  have eq: "zeropad_U U K C Kp Cp ! ?k
      = cell (if \<exists>o'<K. \<exists>c<C. \<exists>xi<4. \<exists>nu<4. ?k = tile_index Kp Cp xi nu c o'
          then Some (\<lambda>_. zeropad_cell U K C Kp Cp ?k) else None) 0"
    using pointwise_nth [OF pw k] k by (simp add: def)
  have "zeropad_U U K C Kp Cp ! ?k = (if c < C \<and> o1 < K then U ! tile_index K C xi nu c o1 else 0)"
  proof (cases "c < C \<and> o1 < K")
    case True
    then have "\<exists>o'<K. \<exists>c<C. \<exists>xi<4. \<exists>nu<4. ?k = tile_index Kp Cp xi nu c o'"
      using b by blast
    then show ?thesis
      using True b by (simp add: eq cell_def zeropad_cell_def tile_index_decode)
  next
    case False
    have "\<not> (\<exists>o'<K. \<exists>c<C. \<exists>xi<4. \<exists>nu<4. ?k = tile_index Kp Cp xi nu c o')"
    proof
      assume "\<exists>o'<K. \<exists>c<C. \<exists>xi<4. \<exists>nu<4. ?k = tile_index Kp Cp xi nu c o'"
      then obtain o2 c2 xi2 nu2 where w: "o2 < K" "c2 < C" "xi2 < 4" "nu2 < 4"
        "?k = tile_index Kp Cp xi2 nu2 c2 o2" by blast
      have "c = c2 \<and> o1 = o2"
        using tile_index_inj [OF b(4) _ b(3) _ b(2) w(4) w(5)] w(1,2) assms(1,2) by simp
      then show False using False w by simp
    qed
    then show ?thesis using False unfolding eq by (simp only: if_False cell_def option.case)
  qed
  then show "zeropad_U U K C Kp Cp ! (xi * (4 * Kp * Cp) + nu * (Kp * Cp) + c * Kp + o1)
            = (if c < C \<and> o1 < K then U ! (xi * (4 * K * C) + nu * (K * C) + c * K + o1) else 0)"
    by (simp add: tile_index_def)
qed


theorem zeropad_U_spec_witness:
  "length (zeropad_U [1, 2, 3, 4, 5, 6, 7, 8, 9, 10, 11, 12, 13, 14, 15, 16] 1 1 2 1) = 32
   \<and> zeropad_U [1, 2, 3, 4, 5, 6, 7, 8, 9, 10, 11, 12, 13, 14, 15, 16] 1 1 2 1 ! 12 = 7
   \<and> zeropad_U [1, 2, 3, 4, 5, 6, 7, 8, 9, 10, 11, 12, 13, 14, 15, 16] 1 1 2 1 ! 13 = 0"
proof -
  let ?U = "[1, 2, 3, 4, 5, 6, 7, 8, 9, 10, 11, 12, 13, 14, 15, 16] :: real list"
  have pre: "(1::nat) \<le> 2" "(1::nat) \<le> 1" "length ?U = WINOGRAD_TILE * 1 * 1"
    by (simp_all add: WINOGRAD_TILE_def WINOGRAD_ALPHA_def)
  note s = zeropad_U_spec [OF pre]
  show ?thesis
    using s [THEN conjunct1] s [THEN conjunct2, rule_format, of 1 2 0 0]
      s [THEN conjunct2, rule_format, of 1 2 0 1]
    by (simp add: WINOGRAD_TILE_def WINOGRAD_ALPHA_def)
qed

subsection \<open>Winograd filter transform\<close>




















subsection \<open>Softmax\<close>













subsection \<open>The self-check comparator\<close>

lemma fabs_pack_exponent: "0 \<le> n \<Longrightarrow> fabs (pack_exponent negative n e) = pack_exponent False n e"
  by (simp add: pack_exponent_def)

lemma fabs_pack: "0 \<le> n \<Longrightarrow> fabs (pack negative n e) = pack False n e"
  by (simp add: pack_def fabs_pack_exponent)

lemma nearest_even_nonneg: "0 \<le> q \<Longrightarrow> 0 \<le> nearest_even q r half"
  by (simp add: nearest_even_def)

lemma fabs_round: "0 \<le> m \<Longrightarrow> fabs (round_to_binary32 negative m e) = round_to_binary32 False m e"
  by (simp add: round_to_binary32_def drop_bits_def fabs_pack nearest_even_nonneg div_int_pos_iff)

lemma fabs_div32: "fabs (div32 x y) = div32 (fabs x) (fabs y)"
proof (cases x; cases y)
  fix m1 e1 m2 e2 assume xy: "x = Finite m1 e1" "y = Finite m2 e2"
  have n: "0 \<le> 2 * (\<bar>m1\<bar> * 2 ^ s div \<bar>m2\<bar>) + (if \<bar>m1\<bar> * 2 ^ s mod \<bar>m2\<bar> = 0 then 0 else 1)" for s
    by (simp add: div_int_pos_iff)
  show ?thesis
    unfolding xy by (simp add: quotient_digits_def fabs_round [OF n])
qed simp_all

lemma fabs_idem: "fabs (fabs x) = fabs x"
  by (cases x) simp_all

lemma less32_zero:
  "less32 (Finite m e) (Finite 0 e') \<longleftrightarrow> m < 0"
  "less32 (Finite 0 e') (Finite m e) \<longleftrightarrow> 0 < m"
  "eq32 (Finite m e) (Finite 0 e') \<longleftrightarrow> m = 0"
  by (simp_all add: mult_less_0_iff zero_less_mult_iff)

lemma sign_flip_iff:
  assumes "a \<noteq> NaN32" "b \<noteq> NaN32"
  shows "(((a < 0) \<noteq> (b < 0)) \<and> \<not> eq32 a 0 \<and> \<not> eq32 b 0) \<longleftrightarrow> ((a < 0 \<and> 0 < b) \<or> (0 < a \<and> b < 0))"
  using assms
  by (cases a; cases b)
    (auto simp: less_binary32_def zero_binary32_def less32_zero simp del: less32.simps(1) eq32.simps(1))

lemma small_number_eq: "small_number = Finite 8589935 (- 33)" "b32 1 / b32 1000 = Finite 8589935 (- 33)"
  by (simp_all add: small_number_def binary32_eval)

lemma relative_error_eq: "relative_error = Finite 13421773 (- 27)" "b32 1 / b32 10 = Finite 13421773 (- 27)"
  by (simp_all add: relative_error_def binary32_eval)

lemma relative_error_less_FLT_MAX: "b32 1 / b32 10 < FLT_MAX"
  by (simp add: relative_error_eq FLT_MAX_def less_binary32_def)

lemma clamped_max: "std_max (fabs x) small_number = clamped x"
  by (simp add: std_max_def clamped_def small_number_def)

lemma fabs_clamped: "fabs (clamped x) = clamped x"
  by (simp add: clamped_def fabs_idem small_number_eq)

lemma relative_difference_claimed: "relative_difference a b = claimed_error a b"
proof (cases "a = NaN32 \<or> b = NaN32")
  case True
  then show ?thesis by (auto simp: relative_difference_def claimed_error_def isnan_def)
next
  case False
  then have n: "a \<noteq> NaN32" "b \<noteq> NaN32" by simp_all
  have q: "fabs ((x - y) / clamped z) = fabs (x - y) / clamped z" for x y z
    by (simp add: divide_binary32_def fabs_div32 fabs_clamped)
  have "relative_difference a b =
     (if (small_number < fabs a \<and> small_number < fabs b) \<and> ((a < 0 \<and> 0 < b) \<or> (0 < a \<and> b < 0))
      then FLT_MAX
      else std_max (fabs (clamped a - clamped b) / clamped a) (fabs (clamped a - clamped b) / clamped b))"
    unfolding relative_difference_def Let_def clamped_max q sign_flip_iff [OF n]
    using n by (simp only: isnan_def simp_thms if_False)
  also have "\<dots> = claimed_error a b"
    unfolding claimed_error_def small_number_def using n by (simp only: simp_thms if_False conj_assoc)
  finally show ?thesis .
qed

lemma compare_element_flags:
  "almost_equal (compare_element data ref False idx s)
     = (almost_equal s \<and> \<not> mismatch (data ! idx) (ref ! idx))"
  "map (\<lambda>(e, g, n, r). (e, g)) (printed (compare_element data ref False idx s))
     = map (\<lambda>(e, g, n, r). (e, g)) (printed s)
       @ (if mismatch (data ! idx) (ref ! idx) then [(ref ! idx, data ! idx)] else [])"
  by (simp_all add: compare_element_def Let_def mismatch_def relative_difference_claimed
      relative_error_def)

lemma compare_fold_almost_equal:
  "almost_equal (fold (compare_element data ref False) is s)
     = (almost_equal s \<and> (\<forall>idx \<in> set is. \<not> mismatch (data ! idx) (ref ! idx)))"
  by (induction "is" arbitrary: s) (auto simp: compare_element_flags)

lemma compare_fold_printed:
  "map (\<lambda>(e, g, n, r). (e, g)) (printed (fold (compare_element data ref False) is s))
     = map (\<lambda>(e, g, n, r). (e, g)) (printed s)
       @ map (\<lambda>idx. (ref ! idx, data ! idx)) (filter (\<lambda>idx. mismatch (data ! idx) (ref ! idx)) is)"
  by (induction "is" arbitrary: s) (simp_all add: compare_element_flags)

lemma mismatch_NaN: "mismatch NaN32 b" "mismatch a NaN32"
  by (simp_all add: mismatch_def claimed_error_def relative_error_less_FLT_MAX)

text \<open>
  C9, as amended. For every pair of equal-length output vectors of floats that are finite or
  NaN, the self-check comparator in its default mode (\<open>display_only = false\<close>) flags an element
  as a mismatch exactly when its relative error exceeds the float 0.1: the result
  \<open>almost_equal\<close> is true when no element is a mismatch, and the error lines printed are those
  of the mismatching elements, in order. The relative error of a pair is computed in floats
  after clamping magnitudes below the float \<open>10\<^sup>-\<^sup>3\<close> up to it; a sign flip between two values
  whose magnitudes both exceed \<open>10\<^sup>-\<^sup>3\<close> is reported as maximal error, and so is a NaN in either
  value, which is therefore always a mismatch.
\<close>

theorem compare_net_outputs_spec:
  assumes "length data = length ref" "list_all finite_or_nan data" "list_all finite_or_nan ref"
  shows "(almost_equal (compare_net_outputs data ref fatal_in False n)
            \<longleftrightarrow> (\<forall>idx < length data. \<not> mismatch (data ! idx) (ref ! idx)))
    \<and> map (\<lambda>(e, g, n, r). (e, g)) (printed (compare_net_outputs data ref fatal_in False n))
        = map (\<lambda>idx. (ref ! idx, data ! idx))
            (filter (\<lambda>idx. mismatch (data ! idx) (ref ! idx)) [0..<length data])
    \<and> (\<forall>idx < length data.
          relative_difference (data ! idx) (ref ! idx) = claimed_error (data ! idx) (ref ! idx))
    \<and> mismatch NaN32 b \<and> mismatch a NaN32"
proof (intro conjI)
  show "almost_equal (compare_net_outputs data ref fatal_in False n)
            \<longleftrightarrow> (\<forall>idx < length data. \<not> mismatch (data ! idx) (ref ! idx))"
    by (auto simp: compare_net_outputs_def compare_fold_almost_equal)
  show "map (\<lambda>(e, g, n, r). (e, g)) (printed (compare_net_outputs data ref fatal_in False n))
        = map (\<lambda>idx. (ref ! idx, data ! idx))
            (filter (\<lambda>idx. mismatch (data ! idx) (ref ! idx)) [0..<length data])"
    by (simp add: compare_net_outputs_def compare_fold_printed)
  show "\<forall>idx < length data.
          relative_difference (data ! idx) (ref ! idx) = claimed_error (data ! idx) (ref ! idx)"
    by (simp add: relative_difference_claimed)
qed (rule mismatch_NaN)+

lemma mismatch_examples:
  "\<not> mismatch (b32 1) (b32 1)" "mismatch (b32 2) (- b32 2)"
  by (simp_all add: mismatch_def claimed_error_def clamped_def std_max_def FLT_MAX_def binary32_eval)

theorem compare_net_outputs_spec_witness:
  "\<not> almost_equal (compare_net_outputs [b32 1, b32 2, NaN32] [b32 1, - b32 2, b32 3] False False 500)
   \<and> map (\<lambda>(e, g, n, r). (e, g))
        (printed (compare_net_outputs [b32 1, b32 2, NaN32] [b32 1, - b32 2, b32 3] False False 500))
      = [(- b32 2, b32 2), (b32 3, NaN32)]
   \<and> relative_difference (b32 2) (- b32 2) = FLT_MAX"
proof -
  have f: "list_all finite_or_nan [b32 1, b32 2, NaN32]" "list_all finite_or_nan [b32 1, - b32 2, b32 3]"
    by (simp_all add: finite_or_nan_def binary32_eval)
  have u: "[0..<3] = [0, 1, 2]" by (simp add: upt_rec)
  have c: "claimed_error (b32 2) (- b32 2) = FLT_MAX"
    by (simp add: claimed_error_def binary32_eval)
  from compare_net_outputs_spec [of "[b32 1, b32 2, NaN32]" "[b32 1, - b32 2, b32 3]", OF _ f, of False 500]
  show ?thesis
    by (simp add: mismatch_examples mismatch_NaN u less_Suc_eq numeral_3_eq_3 c all_conj_distrib)
qed

text \<open>
  The claim C9 as it was stated reports every sign flip between non-zero values as maximal
  error, and speaks of every pair of vectors. The source tests the signs only when both
  magnitudes exceed \<open>small_number\<close>: two non-zero values of opposite sign and magnitude
  \<open>5 \<cdot> 10\<^sup>-\<^sup>4\<close> have error 0 and are not flagged. And an infinite value is flagged on one side
  only: the error of \<open>(\<infinity>, 1)\<close> is NaN, which exceeds nothing, while the error of \<open>(1, \<infinity>)\<close> is
  infinite.
\<close>

theorem sign_flip_and_infinity_not_flagged:
  "relative_difference (b32 1 / b32 2000) (- (b32 1 / b32 2000)) = 0
   \<and> almost_equal (compare_net_outputs [b32 1 / b32 2000] [- (b32 1 / b32 2000)] False False 500)
   \<and> relative_difference PInf (b32 1) = NaN32
   \<and> almost_equal (compare_net_outputs [PInf] [b32 1] False False 500)
   \<and> relative_difference (b32 1) PInf = PInf
   \<and> \<not> almost_equal (compare_net_outputs [b32 1] [PInf] False False 500)"
proof -
  have 1: "relative_difference (b32 1 / b32 2000) (- (b32 1 / b32 2000)) = 0"
    by (simp add: relative_difference_def isnan_def small_number_def std_max_def binary32_eval)
  have 2: "relative_difference PInf (b32 1) = NaN32"
    by (simp add: relative_difference_def isnan_def small_number_def std_max_def binary32_eval)
  have 3: "relative_difference (b32 1) PInf = PInf"
    by (simp add: relative_difference_def isnan_def small_number_def std_max_def binary32_eval)
  have r: "\<not> relative_error < 0" "\<not> relative_error < NaN32" "relative_error < PInf"
    by (simp_all add: relative_error_eq less_binary32_def zero_binary32_def)
  show ?thesis
    by (simp add: 1 2 3 r compare_net_outputs_def compare_element_def Let_def)
qed

subsection \<open>SearchResult\<close>

text \<open>
  C10. For every float board score \<open>s\<close>, \<open>from_score s\<close> is a valid result whose eval is
  1 when \<open>s > 0\<close>, 0 when \<open>s < 0\<close> and 1/2 when \<open>s = 0\<close>; in every case (also for a NaN
  score) the eval lies in [0,1]. A default-constructed result is invalid.
\<close>

theorem from_score_spec:
  "valid (from_score s)
   \<and> (fgt s (Fin 0) \<longrightarrow> eval (from_score s) = Fin 1)
   \<and> (flt s (Fin 0) \<longrightarrow> eval (from_score s) = Fin 0)
   \<and> (s = Fin 0 \<longrightarrow> eval (from_score s) = Fin (1 / 2))
   \<and> (\<exists>r. eval (from_score s) = Fin r \<and> 0 \<le> r \<and> r \<le> 1)
   \<and> \<not> valid SearchResult_default"
  by (cases s) (auto simp: from_score_def SearchResult_of_def SearchResult_default_def
      valid_def eval_def intro: exI [of _ "1 / 2"])

theorem from_score_spec_witness:
  "fgt (Fin 3) (Fin 0) \<and> eval (from_score (Fin 3)) = Fin 1
   \<and> flt (Fin (- 2)) (Fin 0) \<and> eval (from_score (Fin (- 2))) = Fin 0
   \<and> eval (from_score (Fin 0)) = Fin (1 / 2)
   \<and> valid (from_score NaN) \<and> eval (from_score NaN) = Fin (1 / 2)"
  using from_score_spec [of "Fin 3"] from_score_spec [of "Fin (- 2)"]
    from_score_spec [of "Fin 0"] from_score_spec [of NaN]
  by (simp add: from_score_def SearchResult_of_def eval_def)

subsection \<open>Winograd convolution\<close>


lemma pointwise_cong_P:
  assumes "pointwise F (\<lambda>k. if P k then Some (g k) else None)"
    and "\<And>k. P k \<longleftrightarrow> Q k"
  shows "pointwise F (\<lambda>k. if Q k then Some (g k) else None)"
  by (rule pointwise_cong [OF assms(1)]) (simp add: assms(2))

lemma pointwise_comp:
  assumes F1: "pointwise F1 (\<lambda>k. if P k then Some (g k) else None)"
    and F2: "pointwise F2 (\<lambda>k. if Q k then Some (g k) else None)"
    and disj: "\<And>k. P k \<Longrightarrow> Q k \<Longrightarrow> False"
  shows "pointwise (\<lambda>xs. F2 (F1 xs)) (\<lambda>k. if P k \<or> Q k then Some (g k) else None)"
proof (rule pointwiseI)
  fix xs :: "'a list"
  show "length (F2 (F1 xs)) = length xs"
    by (simp add: pointwise_length [OF F2] pointwise_length [OF F1])
next
  fix xs :: "'a list" and k
  assume k: "k < length xs"
  then have k': "k < length (F1 xs)" by (simp add: pointwise_length [OF F1])
  show "F2 (F1 xs) ! k = cell (if P k \<or> Q k then Some (g k) else None) (xs ! k)"
    using disj [of k]
    by (auto simp: pointwise_nth [OF F2 k'] pointwise_nth [OF F1 k] cell_def)
qed

lemma pointwise_id: "pointwise (\<lambda>xs. xs) (\<lambda>k. if False then Some (g k) else None)"
  by (rule pointwiseI) (simp_all add: cell_def)

lemma upt_4: "[0..<4] = [0, 1, 2, 3]"
  by (simp add: upt_rec)

lemma upt_16: "[0..<16] = [0, 1, 2, 3, 4, 5, 6, 7, 8, 9, 10, 11, 12, 13, 14, 15]"
  by (simp add: upt_rec)



















































subsection \<open>The forward pass\<close>




lemma fold_length: "(\<And>x a. x \<in> set xs \<Longrightarrow> length (f x a) = length a) \<Longrightarrow> length (fold f xs a) = length a"
  by (induction xs arbitrary: a) simp_all





lemma cblas_sgemv_length: "length (cblas_sgemv M N alpha A lda X beta Y) = length Y"
  unfolding cblas_sgemv_def by (intro fold_length) simp

















end
